theory Spec2Isabelle
  imports Main "HOL-Library.Word"
begin

section \<open>Strings of the program\<close>

text \<open>
  A JavaScript string is a sequence of UTF-16 code units; \<open>length\<close>, \<open>lastIndexOf\<close> and
  \<open>substring\<close> all count code units. The three break characters of \<open>splitMessage\<close>
  (line feed, the ideographic full stop U+3002 and the space) are one code unit each.
\<close>

type_synonym jschar = "16 word"
type_synonym jsstring = "jschar list"

definition newline :: jschar where
  "newline = 0x000A"

definition terminator :: jschar where
  "terminator = 0x3002"

definition space :: jschar where
  "space = 0x0020"

text \<open>
  \<open>lastIndexFrom s c n\<close> is the greatest index below \<open>n\<close> that holds \<open>c\<close>, or \<open>-1\<close>.
  It is only called with \<open>n \<le> length s\<close>.
\<close>

fun lastIndexFrom :: "jsstring \<Rightarrow> jschar \<Rightarrow> nat \<Rightarrow> int" where
  "lastIndexFrom s c 0 = -1"
| "lastIndexFrom s c (Suc k) = (if s ! k = c then int k else lastIndexFrom s c k)"

text \<open>
  \<open>String.prototype.lastIndexOf(searchString, position)\<close> for a search string of one code
  unit: the position is clamped between \<open>0\<close> and \<open>length - 1\<close>, and the search runs
  from there towards index \<open>0\<close>; the result is \<open>-1\<close> when nothing is found.
\<close>

definition lastIndexOf :: "jsstring \<Rightarrow> jschar \<Rightarrow> int \<Rightarrow> int" where
  "lastIndexOf s c position =
     (let len = int (length s);
          start = min (max position 0) (len - 1)
      in lastIndexFrom s c (nat (start + 1)))"

text \<open>
  \<open>String.prototype.substring(start, end)\<close>: both arguments are clamped between \<open>0\<close> and
  the length, and swapped when the first exceeds the second. \<open>substringFrom\<close> is the call
  with one argument, whose end is the length.
\<close>

definition substring :: "jsstring \<Rightarrow> int \<Rightarrow> int \<Rightarrow> jsstring" where
  "substring s start endIndex =
     (let len = int (length s);
          finalStart = min (max start 0) len;
          finalEnd = min (max endIndex 0) len;
          from = min finalStart finalEnd;
          to = max finalStart finalEnd
      in take (nat (to - from)) (drop (nat from) s))"

definition substringFrom :: "jsstring \<Rightarrow> int \<Rightarrow> jsstring" where
  "substringFrom s start = substring s start (int (length s))"

section \<open>Message chunker\<close>

text \<open>
  The test \<open>breakPoint === -1 || breakPoint < maxLength / 2\<close> of the source. Both numbers
  are integers, so the comparison with the half is \<open>2 * breakPoint < maxLength\<close>.
\<close>

definition unacceptable :: "int \<Rightarrow> int \<Rightarrow> bool" where
  "unacceptable breakPoint maxLength \<longleftrightarrow> breakPoint = -1 \<or> 2 * breakPoint < maxLength"

text \<open>
  The break point of one iteration: the variable \<open>breakPoint\<close> is assigned up to four
  times, each later assignment guarded by the test on its current value.
\<close>

definition findBreakPoint :: "jsstring \<Rightarrow> int \<Rightarrow> int" where
  "findBreakPoint remaining maxLength =
     (let breakPoint = lastIndexOf remaining newline maxLength;
          breakPoint = (if unacceptable breakPoint maxLength
                        then lastIndexOf remaining terminator maxLength else breakPoint);
          breakPoint = (if unacceptable breakPoint maxLength
                        then lastIndexOf remaining space maxLength else breakPoint);
          breakPoint = (if unacceptable breakPoint maxLength
                        then maxLength else breakPoint)
      in breakPoint)"

text \<open>
  The \<open>while\<close> loop of \<open>splitMessage\<close>, with the variables \<open>remaining\<close> and \<open>chunks\<close> as
  arguments. The source has no bound on the number of iterations, so the loop is a
  partial function: \<open>None\<close> stands for a loop that never returns.
\<close>

partial_function (option) splitLoop :: "int \<Rightarrow> jsstring \<Rightarrow> jsstring list \<Rightarrow> jsstring list option" where
  "splitLoop maxLength remaining chunks =
     (if length remaining > 0 then
        (if int (length remaining) \<le> maxLength then Some (chunks @ [remaining])
         else
           (let breakPoint = findBreakPoint remaining maxLength
            in splitLoop maxLength
                 (substringFrom remaining (breakPoint + 1))
                 (chunks @ [substring remaining 0 (breakPoint + 1)])))
      else Some chunks)"

definition splitMessage :: "jsstring \<Rightarrow> int \<Rightarrow> jsstring list option" where
  "splitMessage text maxLength =
     (if int (length text) \<le> maxLength then Some [text]
      else splitLoop maxLength text [])"

section \<open>The cut procedure in the words of the specification\<close>

text \<open>
  A second description of the chunker, written from the specification and compared with
  \<open>splitMessage\<close> below. Positions are indices into the remaining text, counted from 0,
  and \<open>maxLength\<close> is a length, a natural number.

  \<open>lastAtOrBefore s c maxLength\<close> is the last index at or before \<open>maxLength\<close> that holds
  the character \<open>c\<close>, if there is one.
\<close>

definition lastAtOrBefore :: "jsstring \<Rightarrow> jschar \<Rightarrow> nat \<Rightarrow> nat option" where
  "lastAtOrBefore s c maxLength =
     (let hits = filter (\<lambda>i. s ! i = c) [0 ..< min (length s) (Suc maxLength)]
      in if hits = [] then None else Some (last hits))"

text \<open>A candidate is taken when there is one and its position is not below \<open>maxLength / 2\<close>.\<close>

definition acceptable :: "nat \<Rightarrow> nat option \<Rightarrow> nat option" where
  "acceptable maxLength candidate =
     (case candidate of
        None \<Rightarrow> None
      | Some p \<Rightarrow> if 2 * p < maxLength then None else Some p)"

text \<open>
  The break character of an iteration: the last newline, else the last sentence
  terminator, else the last space, each only when acceptable. \<open>None\<close> is the case left to
  the hard cut.
\<close>

definition breakCharacter_spec :: "jsstring \<Rightarrow> nat \<Rightarrow> nat option" where
  "breakCharacter_spec s maxLength =
     (case acceptable maxLength (lastAtOrBefore s newline maxLength) of
        Some p \<Rightarrow> Some p
      | None \<Rightarrow>
     (case acceptable maxLength (lastAtOrBefore s terminator maxLength) of
        Some p \<Rightarrow> Some p
      | None \<Rightarrow> acceptable maxLength (lastAtOrBefore s space maxLength)))"

text \<open>
  The number of code units an iteration cuts off: the text up to and including the break
  character, or, without one, exactly \<open>maxLength\<close> code units (the hard cut).
\<close>

definition chunkLength_spec :: "jsstring \<Rightarrow> nat \<Rightarrow> nat" where
  "chunkLength_spec s maxLength =
     (case breakCharacter_spec s maxLength of
        Some p \<Rightarrow> Suc p
      | None \<Rightarrow> maxLength)"

text \<open>
  Cutting is repeated on the remainder until it fits: a remainder that fits is the last
  chunk, and an empty remainder adds no chunk. Nothing in the words bounds the number of
  repetitions (a hard cut of no code units, for \<open>maxLength = 0\<close>, repeats for ever), so
  this is a partial function too.
\<close>

partial_function (option) splitLoop_spec :: "nat \<Rightarrow> jsstring \<Rightarrow> jsstring list \<Rightarrow> jsstring list option" where
  "splitLoop_spec maxLength remaining chunks =
     (if remaining = [] then Some chunks
      else if length remaining \<le> maxLength then Some (chunks @ [remaining])
      else (let n = chunkLength_spec remaining maxLength
            in splitLoop_spec maxLength (drop n remaining) (chunks @ [take n remaining])))"

definition splitMessage_spec :: "jsstring \<Rightarrow> nat \<Rightarrow> jsstring list option" where
  "splitMessage_spec text maxLength =
     (if length text \<le> maxLength then Some [text]
      else splitLoop_spec maxLength text [])"

declare splitLoop_spec.simps [code]

section \<open>Values and string literals\<close>

text \<open>
  The identifiers of an event's source are JavaScript values: a string, or \<open>undefined\<close>
  when the field is absent. The operator \<open>||\<close> yields its left operand when that is
  truthy and its right operand otherwise; \<open>undefined\<close>, \<open>null\<close>, \<open>false\<close>, \<open>0\<close> and the
  empty string are falsy. (Numbers are modelled as integers: \<open>NaN\<close>, falsy too, is left
  out, and so are objects, which are truthy.)
\<close>

datatype jsval = JUndefined | JNull | JBool bool | JNum int | JStr jsstring

fun truthy :: "jsval \<Rightarrow> bool" where
  "truthy JUndefined = False"
| "truthy JNull = False"
| "truthy (JBool b) = b"
| "truthy (JNum n) = (n \<noteq> 0)"
| "truthy (JStr s) = (s \<noteq> [])"

definition jsOr :: "jsval \<Rightarrow> jsval \<Rightarrow> jsval" where
  "jsOr a b = (if truthy a then a else b)"

text \<open>An ASCII literal as code units; the other literals are written out in code units.\<close>

definition ascii :: "string \<Rightarrow> jsstring" where
  "ascii s = map (\<lambda>c. of_nat (of_char c)) s"

definition RESET_JA :: jsstring where
  \<comment> \<open>the katakana word for "reset", U+30EA U+30BB U+30C3 U+30C8\<close>
  "RESET_JA = [0x30EA, 0x30BB, 0x30C3, 0x30C8]"

definition HELP_JA :: jsstring where
  \<comment> \<open>the katakana word for "help", U+30D8 U+30EB U+30D7\<close>
  "HELP_JA = [0x30D8, 0x30EB, 0x30D7]"

definition RESET_REPLY :: jsstring where
  \<comment> \<open>the confirmation sent after a reset (line 141 of the source)\<close>
  "RESET_REPLY =
     [0x4F1A, 0x8A71, 0x5C65, 0x6B74, 0x3092, 0x30EA, 0x30BB, 0x30C3, 0x30C8, 0x3057,
      0x307E, 0x3057, 0x305F, 0xFF01, 0xD83D, 0xDD04, 0x000A, 0x65B0, 0x3057, 0x3044,
      0x4F1A, 0x8A71, 0x3092, 0x59CB, 0x3081, 0x307E, 0x3057, 0x3087, 0x3046, 0xFF01]"

definition HELP_REPLY :: jsstring where
  \<comment> \<open>the help text (lines 151 to 156 of the source)\<close>
  "HELP_REPLY =
     [0xD83E, 0xDD16, 0x0020, 0x004C, 0x0049, 0x004E, 0x0045, 0x0020, 0x0041, 0x0049,
      0x0020, 0x0043, 0x0068, 0x0061, 0x0074, 0x0062, 0x006F, 0x0074, 0x0020, 0x0028,
      0x0047, 0x0065, 0x006D, 0x0069, 0x006E, 0x0069, 0x0029, 0x000A, 0x000A, 0x8A71,
      0x3057, 0x304B, 0x3051, 0x308B, 0x3068, 0x0041, 0x0049, 0x304C, 0x5FDC, 0x7B54,
      0x3057, 0x307E, 0x3059, 0xFF01, 0x000A, 0x000A, 0x3010, 0x30B3, 0x30DE, 0x30F3,
      0x30C9, 0x3011, 0x000A, 0x30FB, 0x30EA, 0x30BB, 0x30C3, 0x30C8, 0x0020, 0x002D,
      0x0020, 0x4F1A, 0x8A71, 0x5C65, 0x6B74, 0x3092, 0x30AF, 0x30EA, 0x30A2, 0x000A,
      0x30FB, 0x30D8, 0x30EB, 0x30D7, 0x0020, 0x002D, 0x0020, 0x3053, 0x306E, 0x8AAC,
      0x660E, 0x3092, 0x8868, 0x793A, 0x000A, 0x000A, 0x4F55, 0x3067, 0x3082, 0x805E,
      0x3044, 0x3066, 0x304F, 0x3060, 0x3055, 0x3044, 0xFF01, 0xD83D, 0xDE0A]"

definition APOLOGY_REPLY :: jsstring where
  \<comment> \<open>the apology sent when the model call fails (line 179 of the source)\<close>
  "APOLOGY_REPLY =
     [0x7533, 0x3057, 0x8A33, 0x3042, 0x308A, 0x307E, 0x305B, 0x3093, 0x3001, 0x30A8,
      0x30E9, 0x30FC, 0x304C, 0x767A, 0x751F, 0x3057, 0x307E, 0x3057, 0x305F, 0x3002,
      0xD83D, 0xDE47, 0x000A, 0x3057, 0x3070, 0x3089, 0x304F, 0x3057, 0x3066, 0x304B,
      0x3089, 0x3082, 0x3046, 0x4E00, 0x5EA6, 0x304A, 0x8A66, 0x3057, 0x304F, 0x3060,
      0x3055, 0x3044, 0x3002]"

section \<open>Conversation history\<close>

text \<open>
  A turn is the object \<open>{ role, parts: [{ text }] }\<close>. The global \<open>conversationHistory\<close> is
  a \<open>Map\<close> from conversation id to an array of turns; the model is a partial map to lists.
\<close>

record part =
  "text" :: jsstring

record turn =
  role :: jsstring
  parts :: "part list"

type_synonym store = "jsval \<rightharpoonup> turn list"

definition MAX_HISTORY_LENGTH :: nat where
  "MAX_HISTORY_LENGTH = 20"

text \<open>
  \<open>getHistory\<close> inserts an empty array for an id without an entry, and returns the array
  of the id. It returns the updated map with the array.
\<close>

definition getHistory :: "store \<Rightarrow> jsval \<Rightarrow> store \<times> turn list" where
  "getHistory conversationHistory conversationId =
     (case conversationHistory conversationId of
        None \<Rightarrow> (conversationHistory(conversationId \<mapsto> []), [])
      | Some history \<Rightarrow> (conversationHistory, history))"

text \<open>
  \<open>addToHistory\<close> pushes onto the array that \<open>getHistory\<close> returned and splices the
  oldest turns off its front. The array is the one the map holds for the id, so the model
  writes the new contents back under the id.
\<close>

definition addToHistory :: "store \<Rightarrow> jsval \<Rightarrow> jsstring \<Rightarrow> jsstring \<Rightarrow> store" where
  "addToHistory conversationHistory conversationId role' content =
     (let (conversationHistory, history) = getHistory conversationHistory conversationId;
          history = history @ [\<lparr>role = role', parts = [\<lparr>part.text = content\<rparr>]\<rparr>];
          history = (if length history > MAX_HISTORY_LENGTH
                     then drop (length history - MAX_HISTORY_LENGTH) history
                     else history)
      in conversationHistory(conversationId \<mapsto> history))"

definition clearHistory :: "store \<Rightarrow> jsval \<Rightarrow> store" where
  "clearHistory conversationHistory conversationId = conversationHistory(conversationId := None)"

text \<open>
  Notions used to state the properties of the store: the history of an id as
  \<open>getHistory\<close> reads it, the turn that \<open>addToHistory\<close> builds from a role and a content,
  a run of calls of \<open>addToHistory\<close> for one id, and the \<open>n\<close> most recent elements of a
  list, in their order.
\<close>

definition historyOf :: "store \<Rightarrow> jsval \<Rightarrow> turn list" where
  "historyOf s cid = snd (getHistory s cid)"

definition turnOf :: "jsstring \<times> jsstring \<Rightarrow> turn" where
  "turnOf rc = \<lparr>role = fst rc, parts = [\<lparr>part.text = snd rc\<rparr>]\<rparr>"

fun addAllToHistory :: "store \<Rightarrow> jsval \<Rightarrow> (jsstring \<times> jsstring) list \<Rightarrow> store" where
  "addAllToHistory s cid [] = s"
| "addAllToHistory s cid (rc # rest) =
     addAllToHistory (addToHistory s cid (fst rc) (snd rc)) cid rest"

definition mostRecent :: "nat \<Rightarrow> 'a list \<Rightarrow> 'a list" where
  "mostRecent n xs = drop (length xs - n) xs"

section \<open>Model gateway\<close>

text \<open>
  The remote chat (\<open>startChat\<close> with the history, the fixed generation settings and system
  instruction, then \<open>sendMessage\<close>, \<open>response\<close> and \<open>text()\<close>) is an external client.
  The array handed to \<open>startChat\<close> is the one the map holds for the id (line 72 passes
  \<open>history\<close> itself, not a copy), so what the client writes to that array is written to
  the stored history. The client is therefore a function from the contents of the array
  and the user message to a failure or the generated text, together with the contents it
  leaves in the array. Every outbound call is recorded, in order, in \<open>calls\<close>.
\<close>

datatype error = TypeError | UpstreamError jsstring | ReplyError jsstring

type_synonym gateway = "turn list \<Rightarrow> jsstring \<Rightarrow> (error + jsstring) \<times> turn list"

record textMessage =
  type :: jsstring
  "text" :: jsstring

record replyRequest =
  replyToken :: jsval
  messages :: "textMessage list"

datatype call = ModelCall "turn list" jsstring | ReplyCall replyRequest

record world =
  conversationHistory :: store
  calls :: "call list"

definition getChatResponse :: "gateway \<Rightarrow> world \<Rightarrow> jsval \<Rightarrow> jsstring \<Rightarrow> (error + jsstring) \<times> world" where
  "getChatResponse model w conversationId userMessage =
     (let (store, history) = getHistory (conversationHistory w) conversationId;
          (outcome, history') = model history userMessage;
          w = w\<lparr>conversationHistory := store(conversationId \<mapsto> history'),
                calls := calls w @ [ModelCall history userMessage]\<rparr>
      in case outcome of
           Inr assistantMessage \<Rightarrow>
             (let store = addToHistory (conversationHistory w) conversationId
                            (ascii ''user'') userMessage;
                  store = addToHistory store conversationId (ascii ''model'') assistantMessage
              in (Inr assistantMessage, w\<lparr>conversationHistory := store\<rparr>))
         | Inl error \<Rightarrow> (Inl error, w))"

section \<open>Event dispatcher\<close>

text \<open>
  An inbound event carries \<open>type\<close>, \<open>source\<close> and \<open>replyToken\<close>, and a \<open>message\<close> when
  it is a message event. Reading \<open>event.message.type\<close> of an event of type \<open>message\<close>
  that has no message raises a \<open>TypeError\<close>.
\<close>

record message =
  type :: jsstring
  "text" :: jsstring

record source =
  groupId :: jsval
  roomId :: jsval
  userId :: jsval

record event =
  type :: jsstring
  message :: "message option"
  source :: source
  replyToken :: jsval

definition conversationIdOf :: "event \<Rightarrow> jsval" where
  \<comment> \<open>\<open>event.source.groupId || event.source.roomId || event.source.userId\<close>\<close>
  "conversationIdOf ev =
     jsOr (jsOr (groupId (event.source ev)) (roomId (event.source ev))) (userId (event.source ev))"

text \<open>
  \<open>lineClient.replyMessage\<close> is an external call too: it records the request and returns a
  promise that the platform accepts, with a response, or rejects, with an error.
  \<open>handleEvent\<close> is an \<open>async\<close> function that returns this promise, so it settles as the
  reply does: it returns the response of an accepted reply and throws the error of a
  rejected one. The promise is not awaited inside \<open>try\<close>, so the \<open>catch\<close> clause does not
  see a rejected reply.
\<close>

datatype response = Response jsstring

type_synonym lineClient = "replyRequest \<Rightarrow> error + response"

definition promiseOf :: "error + response \<Rightarrow> error + response option" where
  "promiseOf settled = (case settled of Inl e \<Rightarrow> Inl e | Inr r \<Rightarrow> Inr (Some r))"

definition replyMessage :: "lineClient \<Rightarrow> world \<Rightarrow> replyRequest \<Rightarrow> (error + response option) \<times> world" where
  "replyMessage lineClient w request =
     (promiseOf (lineClient request), w\<lparr>calls := calls w @ [ReplyCall request]\<rparr>)"

definition textMessageOf :: "jsstring \<Rightarrow> textMessage" where
  \<comment> \<open>the object \<open>{ type: 'text', text }\<close>\<close>
  "textMessageOf t = \<lparr>textMessage.type = ascii ''text'', textMessage.text = t\<rparr>"

text \<open>
  \<open>handleEvent\<close> returns \<open>null\<close> (\<open>None\<close>) or what the reply settles to, or throws. The
  outer \<open>option\<close> is \<open>None\<close> when the loop of \<open>splitMessage\<close> does not return. Writing to
  the console is not modelled.
\<close>

definition handleEvent :: "gateway \<Rightarrow> lineClient \<Rightarrow> world \<Rightarrow> event \<Rightarrow> ((error + response option) \<times> world) option" where
  "handleEvent model lineClient w ev =
     (if event.type ev \<noteq> ascii ''message'' then Some (Inr None, w)
      else case event.message ev of
        None \<Rightarrow> Some (Inl TypeError, w)
      | Some msg \<Rightarrow>
          if message.type msg \<noteq> ascii ''text'' then Some (Inr None, w)
          else
            (let userMessage = message.text msg;
                 conversationId = conversationIdOf ev
             in if userMessage = RESET_JA \<or> userMessage = ascii ''/reset'' then
                  Some (replyMessage lineClient
                    (w\<lparr>conversationHistory := clearHistory (conversationHistory w) conversationId\<rparr>)
                    \<lparr>replyRequest.replyToken = event.replyToken ev, messages = [textMessageOf RESET_REPLY]\<rparr>)
                else if userMessage = HELP_JA \<or> userMessage = ascii ''/help'' then
                  Some (replyMessage lineClient w
                    \<lparr>replyRequest.replyToken = event.replyToken ev, messages = [textMessageOf HELP_REPLY]\<rparr>)
                else
                  (case getChatResponse model w conversationId userMessage of
                     (Inr aiResponse, w) \<Rightarrow>
                       (case splitMessage aiResponse 4500 of
                          None \<Rightarrow> None
                        | Some messages' \<Rightarrow>
                            Some (replyMessage lineClient w
                              \<lparr>replyRequest.replyToken = event.replyToken ev,
                               messages = map textMessageOf messages'\<rparr>))
                   | (Inl error, w) \<Rightarrow>
                       Some (replyMessage lineClient w
                         \<lparr>replyRequest.replyToken = event.replyToken ev,
                          messages = [textMessageOf APOLOGY_REPLY]\<rparr>))))"

section \<open>Sample inputs\<close>

text \<open>
  Sample inputs for the concrete instances below: a text-message event with a given
  source and text, the source of a one-to-one chat with user \<open>U1\<close>, and the world at
  start, with no history and no call made.
\<close>

definition textEvent :: "source \<Rightarrow> jsstring \<Rightarrow> event" where
  "textEvent src t =
     \<lparr>event.type = ascii ''message'',
      event.message = Some \<lparr>message.type = ascii ''text'', message.text = t\<rparr>,
      event.source = src,
      event.replyToken = JStr (ascii ''token'')\<rparr>"

definition userSource :: source where
  "userSource = \<lparr>groupId = JUndefined, roomId = JUndefined, userId = JStr (ascii ''U1'')\<rparr>"

definition startWorld :: world where
  "startWorld = \<lparr>conversationHistory = Map.empty, calls = []\<rparr>"

text \<open>
  Sample chat clients. The first two leave the array they are handed as it is: one
  answers with a given text, one fails. The other two keep the exchange in that array, as
  a chat session that adopts the array as its own history does: \<open>recordingModel\<close> pushes
  the user turn and the model turn and answers; \<open>blockedModel\<close> pushes the user turn and a
  model turn without parts, and then fails when the text of the blocked answer is read.
\<close>

definition quietModel :: "jsstring \<Rightarrow> gateway" where
  "quietModel reply history userMessage = (Inr reply, history)"

definition failingModel :: gateway where
  "failingModel history userMessage = (Inl (UpstreamError (ascii ''quota'')), history)"

definition recordingModel :: "jsstring \<Rightarrow> gateway" where
  "recordingModel reply history userMessage =
     (Inr reply,
      history @ [turnOf (ascii ''user'', userMessage), turnOf (ascii ''model'', reply)])"

definition blockedModel :: gateway where
  "blockedModel history userMessage =
     (Inl (UpstreamError (ascii ''blocked'')),
      history @ [turnOf (ascii ''user'', userMessage), \<lparr>role = ascii ''model'', parts = []\<rparr>])"

text \<open>Sample platforms: one accepts every reply, one rejects every reply.\<close>

definition acceptingClient :: lineClient where
  "acceptingClient request = Inr (Response (ascii ''ok''))"

definition rejectingClient :: lineClient where
  "rejectingClient request = Inl (ReplyError (ascii ''invalid reply token''))"

declare splitLoop.simps [code]

section \<open>Properties of the message chunker\<close>

subsection \<open>String primitives\<close>

lemma substring_0: "substring s 0 e = take (nat e) s"
  by (auto simp: substring_def Let_def min_def max_def)

lemma substringFrom_drop: "substringFrom s a = drop (nat a) s"
  by (auto simp: substringFrom_def substring_def Let_def min_def max_def)

lemma lastIndexFrom_range: "-1 \<le> lastIndexFrom s c n \<and> lastIndexFrom s c n < int n"
  by (induction n) auto

lemma lastIndexOf_range:
  "0 \<le> p \<Longrightarrow> -1 \<le> lastIndexOf s c p \<and> lastIndexOf s c p \<le> p \<and> lastIndexOf s c p < int (length s)"
  using lastIndexFrom_range[of s c "nat (min (max p 0) (int (length s) - 1) + 1)"]
  by (auto simp: lastIndexOf_def Let_def split: if_splits)

subsection \<open>One iteration of the loop\<close>

lemma findBreakPoint_range:
  assumes "0 \<le> m"
  shows "0 \<le> findBreakPoint r m \<and> findBreakPoint r m \<le> m"
  using lastIndexOf_range[OF assms, of r newline] lastIndexOf_range[OF assms, of r terminator]
    lastIndexOf_range[OF assms, of r space] assms
  by (auto simp: findBreakPoint_def Let_def unacceptable_def)

lemma splitLoop_step:
  assumes "0 \<le> m" and "m < int (length r)"
  shows "splitLoop m r c =
         splitLoop m (drop (nat (findBreakPoint r m + 1)) r)
           (c @ [take (nat (findBreakPoint r m + 1)) r])"
  using assms by (subst splitLoop.simps) (auto simp: Let_def substring_0 substringFrom_drop)

lemma splitLoop_fits:
  assumes "r \<noteq> []" and "int (length r) \<le> m"
  shows "splitLoop m r c = Some (c @ [r])"
  using assms by (subst splitLoop.simps) simp

lemma splitLoop_empty: "splitLoop m [] c = Some c"
  by (subst splitLoop.simps) simp

subsection \<open>The loop returns\<close>

text \<open>
  For a bound that is not negative every iteration removes at least one code unit, so the
  loop returns. The chunks it adds are not empty, concatenate to the string it started
  from, and have at most \<open>maxLength + 1\<close> code units.
\<close>

lemma splitLoop_returns:
  assumes "0 \<le> m"
  shows "\<exists>ys. splitLoop m r c = Some (c @ ys) \<and> concat ys = r \<and>
              (\<forall>y\<in>set ys. y \<noteq> [] \<and> int (length y) \<le> m + 1)"
proof (induction r arbitrary: c rule: length_induct)
  case (1 r)
  show ?case
  proof (cases "r = []")
    case True
    then show ?thesis by (simp add: splitLoop_empty)
  next
    case nonempty: False
    show ?thesis
    proof (cases "int (length r) \<le> m")
      case True
      with nonempty show ?thesis by (simp add: splitLoop_fits)
    next
      case False
      define k where "k = nat (findBreakPoint r m + 1)"
      have k: "0 < k" "int k \<le> m + 1"
        using findBreakPoint_range[OF assms, of r] by (auto simp: k_def)
      with False have klen: "k \<le> length r" by linarith
      have shorter: "length (drop k r) < length r"
        using k nonempty by simp
      from 1 shorter obtain ys where ys:
        "splitLoop m (drop k r) (c @ [take k r]) = Some ((c @ [take k r]) @ ys)"
        "concat ys = drop k r" "\<forall>y\<in>set ys. y \<noteq> [] \<and> int (length y) \<le> m + 1"
        by blast
      have step: "splitLoop m r c = splitLoop m (drop k r) (c @ [take k r])"
        using splitLoop_step[OF assms, of r c] False by (simp add: k_def)
      have "take k r \<noteq> []" using k nonempty by auto
      moreover have "int (length (take k r)) \<le> m + 1" using k klen by simp
      ultimately show ?thesis
        using ys step by (intro exI[of _ "take k r # ys"]) auto
    qed
  qed
qed

lemma splitMessage_chunk_bound:
  assumes "0 \<le> maxLength" and "splitMessage msg maxLength = Some chunks" and "c \<in> set chunks"
  shows "int (length c) \<le> maxLength + 1"
proof (cases "int (length msg) \<le> maxLength")
  case True
  with assms show ?thesis by (auto simp: splitMessage_def)
next
  case False
  from splitLoop_returns[OF assms(1), of msg "[]"] assms(2,3) False
  show ?thesis by (auto simp: splitMessage_def)
qed

subsection \<open>A text without break characters\<close>

text \<open>
  A text of \<open>maxLength + 1\<close> equal code units that are not break characters has no
  acceptable break point but the hard cut, and the hard cut takes all of it: it comes back
  as one chunk of \<open>maxLength + 1\<close> code units. With the bound 4500 that the dispatcher
  uses, a reply of 4501 such code units is sent as one message of 4501.
\<close>

lemma lastIndexFrom_replicate:
  assumes "c \<noteq> a" and "k \<le> n"
  shows "lastIndexFrom (replicate n a) c k = -1"
  using assms by (induction k) auto

lemma lastIndexOf_replicate:
  assumes "c \<noteq> a"
  shows "lastIndexOf (replicate n a) c p = -1"
  using assms by (simp add: lastIndexOf_def Let_def lastIndexFrom_replicate)

lemma findBreakPoint_replicate:
  assumes "a \<noteq> newline" and "a \<noteq> terminator" and "a \<noteq> space"
  shows "findBreakPoint (replicate n a) m = m"
  using assms
  by (simp add: findBreakPoint_def Let_def unacceptable_def lastIndexOf_replicate
      lastIndexOf_replicate[of newline a] lastIndexOf_replicate[of terminator a]
      lastIndexOf_replicate[of space a])

lemma splitMessage_replicate:
  assumes "a \<noteq> newline" and "a \<noteq> terminator" and "a \<noteq> space" and "n = Suc m"
  shows "splitMessage (replicate n a) (int m) = Some [replicate n a]"
proof -
  have k: "nat (int m + 1) = n" and longer: "int m < int (length (replicate n a))"
    using assms(4) by simp_all
  have "splitLoop (int m) (replicate n a) [] =
          splitLoop (int m) (drop n (replicate n a)) ([] @ [take n (replicate n a)])"
    using splitLoop_step[OF _ longer, of "[]"] k
    by (simp add: findBreakPoint_replicate[OF assms(1-3)])
  then have "splitLoop (int m) (replicate n a) [] = Some [replicate n a]"
    by (simp add: splitLoop_empty)
  with longer show ?thesis by (simp add: splitMessage_def)
qed

lemma splitMessage_4501_units:
  "splitMessage (replicate 4501 0x61) 4500 = Some [replicate 4501 0x61]"
  using splitMessage_replicate[of "0x61" 4501 4500]
  by (simp add: newline_def terminator_def space_def)

subsection \<open>Claims about the chunker\<close>

text \<open>
  C1. The claim: every chunk returned by \<open>splitMessage text maxLength\<close>, for a positive
  \<open>maxLength\<close>, has length at most \<open>maxLength\<close>. The code cuts after index \<open>breakPoint\<close>,
  that is, it takes \<open>breakPoint + 1\<close> code units, and \<open>breakPoint\<close> can be \<open>maxLength\<close>
  itself (the hard cut, or a break character found at index \<open>maxLength\<close>). On the text
  \<open>aaa\<close> with \<open>maxLength = 2\<close> the code returns the single chunk \<open>aaa\<close>, of length 3.
\<close>

theorem splitMessage_chunk_longer_than_maxLength:
  "splitMessage [0x61, 0x61, 0x61] 2 = Some [[0x61, 0x61, 0x61]]
   \<and> int (length [0x61 :: jschar, 0x61, 0x61]) > 2"
  by code_simp

text \<open>
  C2. For every string and every positive \<open>maxLength\<close>, \<open>splitMessage\<close> returns, the
  concatenation of the chunks in order is the string, and the empty string gives the one
  chunk that is the empty string.
\<close>

theorem splitMessage_concat:
  assumes "0 < maxLength"
  shows "\<exists>chunks. splitMessage msg maxLength = Some chunks \<and> concat chunks = msg \<and>
                  (msg = [] \<longrightarrow> chunks = [[]])"
proof (cases "int (length msg) \<le> maxLength")
  case True
  then show ?thesis by (simp add: splitMessage_def)
next
  case False
  from assms have "0 \<le> maxLength" by simp
  from splitLoop_returns[OF this, of msg "[]"] obtain ys where
    "splitLoop maxLength msg [] = Some ys" "concat ys = msg" by auto
  moreover from False assms have "msg \<noteq> []" by auto
  ultimately show ?thesis using False by (simp add: splitMessage_def)
qed

theorem splitMessage_concat_witness:
  "(0::int) < 4 \<and>
   (\<exists>chunks. splitMessage [0x61, 0x62, 0x20, 0x63, 0x64, 0x20, 0x65, 0x66] 4 = Some chunks
      \<and> concat chunks = [0x61, 0x62, 0x20, 0x63, 0x64, 0x20, 0x65, 0x66]
      \<and> ([0x61, 0x62, 0x20, 0x63, 0x64, 0x20, 0x65, 0x66] = ([] :: jsstring) \<longrightarrow> chunks = [[]]))"
  using splitMessage_concat [of 4 "[0x61, 0x62, 0x20, 0x63, 0x64, 0x20, 0x65, 0x66]"]
  by simp

text \<open>
  C4. The claim: \<open>splitMessage text maxLength\<close> returns exactly one chunk if and only if
  \<open>text.length <= maxLength\<close>. A text of \<open>maxLength + 1\<close> code units whose break point is
  \<open>maxLength\<close> is returned whole, as one chunk: the text \<open>abc\<close> followed by a line feed,
  with \<open>maxLength = 3\<close>, has length 4 and comes back as one chunk.
\<close>

theorem splitMessage_single_chunk_of_longer_text:
  "splitMessage [0x61, 0x62, 0x63, 0x0A] 3 = Some [[0x61, 0x62, 0x63, 0x0A]]
   \<and> \<not> int (length [0x61 :: jschar, 0x62, 0x63, 0x0A]) \<le> 3"
  by code_simp

subsection \<open>The code against the specification's procedure\<close>

lemma lastIndexFrom_filter:
  "lastIndexFrom s c n =
     (let hits = filter (\<lambda>i. s ! i = c) [0 ..< n] in if hits = [] then -1 else int (last hits))"
  by (induction n) (auto simp: Let_def)

lemma lastIndexOf_spec:
  "lastIndexOf s c (int m) = (case lastAtOrBefore s c m of None \<Rightarrow> -1 | Some p \<Rightarrow> int p)"
proof -
  have "nat (min (max (int m) 0) (int (length s) - 1) + 1) = min (length s) (Suc m)"
    by auto
  then show ?thesis
    by (simp add: lastIndexOf_def lastAtOrBefore_def lastIndexFrom_filter Let_def)
qed

lemma acceptable_Some:
  assumes "acceptable m cand = Some p"
  shows "(case cand of None \<Rightarrow> -1 | Some q \<Rightarrow> int q) = int p"
    and "\<not> unacceptable (int p) (int m)"
  using assms by (auto simp: unacceptable_def acceptable_def split: option.splits if_splits)

lemma acceptable_None:
  assumes "acceptable m cand = None"
  shows "unacceptable (case cand of None \<Rightarrow> -1 | Some q \<Rightarrow> int q) (int m)"
  using assms by (auto simp: unacceptable_def acceptable_def split: option.splits if_splits)

lemma hard_cut_acceptable: "\<not> unacceptable (int m) (int m)"
  by (simp add: unacceptable_def)

text \<open>
  The choice among the break characters is that of the specification: the break point of
  the code is the position of the specification's break character when there is one, and
  \<open>maxLength\<close> when there is none.
\<close>

lemma findBreakPoint_spec:
  "findBreakPoint r (int m) =
     (case breakCharacter_spec r m of Some p \<Rightarrow> int p | None \<Rightarrow> int m)"
proof (cases "acceptable m (lastAtOrBefore r newline m)")
  case (Some p)
  then show ?thesis
    by (simp add: findBreakPoint_def breakCharacter_spec_def Let_def lastIndexOf_spec
        acceptable_Some)
next
  case nl: None
  show ?thesis
  proof (cases "acceptable m (lastAtOrBefore r terminator m)")
    case (Some p)
    with nl show ?thesis
      by (simp add: findBreakPoint_def breakCharacter_spec_def Let_def lastIndexOf_spec
          acceptable_Some acceptable_None)
  next
    case tm: None
    show ?thesis
    proof (cases "acceptable m (lastAtOrBefore r space m)")
      case (Some p)
      with nl tm show ?thesis
        by (simp add: findBreakPoint_def breakCharacter_spec_def Let_def lastIndexOf_spec
            acceptable_Some acceptable_None)
    next
      case None
      with nl tm show ?thesis
        by (simp add: findBreakPoint_def breakCharacter_spec_def Let_def lastIndexOf_spec
            acceptable_None hard_cut_acceptable)
    qed
  qed
qed

text \<open>
  What an iteration of the code cuts off: as much as the specification after a break
  character, and one code unit more than the specification on a hard cut.
\<close>

lemma splitLoop_iteration:
  assumes "m < length r"
  shows "splitLoop (int m) r c =
           (case breakCharacter_spec r m of
              Some p \<Rightarrow> splitLoop (int m) (drop (chunkLength_spec r m) r)
                          (c @ [take (chunkLength_spec r m) r])
            | None \<Rightarrow> splitLoop (int m) (drop (Suc (chunkLength_spec r m)) r)
                          (c @ [take (Suc (chunkLength_spec r m)) r]))"
  using splitLoop_step[of "int m" r c] assms
  by (simp add: findBreakPoint_spec chunkLength_spec_def nat_add_distrib split: option.splits)

text \<open>
  C3. The claim: the cut is at the last newline at or before index \<open>maxLength\<close>, else at
  the last sentence terminator, else at the last space, each unless absent or below
  \<open>maxLength / 2\<close>, else a hard cut at exactly \<open>maxLength\<close> characters, repeated on the
  remainder until it fits. The code chooses among the break characters as the claim says,
  but its hard cut takes \<open>maxLength + 1\<close> code units: on nine letters \<open>a\<close> with
  \<open>maxLength = 4\<close> the code returns chunks of 5 and 4 code units, where the procedure of
  the claim gives chunks of 4, 4 and 1.
\<close>

theorem splitMessage_hard_cut_one_more:
  "splitMessage [0x61, 0x61, 0x61, 0x61, 0x61, 0x61, 0x61, 0x61, 0x61] 4
     = Some [[0x61, 0x61, 0x61, 0x61, 0x61], [0x61, 0x61, 0x61, 0x61]]
   \<and> splitMessage_spec [0x61, 0x61, 0x61, 0x61, 0x61, 0x61, 0x61, 0x61, 0x61] 4
     = Some [[0x61, 0x61, 0x61, 0x61], [0x61, 0x61, 0x61, 0x61], [0x61]]"
  by code_simp

section \<open>Properties of the conversation history\<close>

lemma historyOf_simps: "historyOf s cid = (case s cid of None \<Rightarrow> [] | Some h \<Rightarrow> h)"
  by (simp add: historyOf_def getHistory_def split: option.splits)

lemma getHistory_eq: "getHistory s cid = (s(cid \<mapsto> historyOf s cid), historyOf s cid)"
  by (auto simp: getHistory_def historyOf_simps split: option.splits)

lemma addToHistory_eq:
  "addToHistory s cid r c =
     s(cid \<mapsto> mostRecent MAX_HISTORY_LENGTH (historyOf s cid @ [turnOf (r, c)]))"
  by (auto simp: addToHistory_def getHistory_def historyOf_simps mostRecent_def turnOf_def Let_def
      split: option.splits)

lemma historyOf_addToHistory:
  "historyOf (addToHistory s cid r c) cid =
     mostRecent MAX_HISTORY_LENGTH (historyOf s cid @ [turnOf (r, c)])"
  by (simp add: addToHistory_eq historyOf_simps)

lemma mostRecent_append: "mostRecent n (mostRecent n xs @ ys) = mostRecent n (xs @ ys)"
  by (cases "length xs \<le> n") (auto simp: mostRecent_def add.commute)

lemma length_mostRecent: "length (mostRecent n xs) = min (length xs) n"
  by (auto simp: mostRecent_def)

lemma addToHistory_twice:
  "addToHistory (addToHistory s cid r1 c1) cid r2 c2 =
     s(cid \<mapsto> mostRecent MAX_HISTORY_LENGTH
                  (historyOf s cid @ [turnOf (r1, c1), turnOf (r2, c2)]))"
  by (simp add: addToHistory_eq historyOf_simps mostRecent_append)

text \<open>
  After a run of calls for one id the history is the most recent
  \<open>MAX_HISTORY_LENGTH\<close> turns of the old history followed by the new turns.
\<close>

lemma historyOf_addAllToHistory:
  "historyOf (addAllToHistory s cid ts) cid =
     (if ts = [] then historyOf s cid
      else mostRecent MAX_HISTORY_LENGTH (historyOf s cid @ map turnOf ts))"
proof (induction ts arbitrary: s)
  case Nil
  then show ?case by simp
next
  case (Cons rc rest)
  show ?case
    by (cases "rest = []")
       (simp_all add: Cons.IH historyOf_addToHistory mostRecent_append)
qed

text \<open>
  C5. Starting from an empty history for an id, after the calls of \<open>addToHistory\<close> for the
  turns \<open>ts\<close> (\<open>N = length ts\<close>) the history of the id has length \<open>min N 20\<close>; it is the
  list of the appended turns with the first \<open>N - 20\<close> dropped, that is, all of them when
  \<open>N \<le> 20\<close> and the 20 most recent, in the order they were appended, when \<open>N > 20\<close>; and
  after each of the calls (after the first \<open>k\<close> of them, for every \<open>k\<close>) its length is at
  most \<open>MAX_HISTORY_LENGTH\<close>, which is 20.
\<close>

theorem addToHistory_bounded_recent:
  assumes "historyOf s cid = []"
  shows "length (historyOf (addAllToHistory s cid ts) cid) = min (length ts) 20
       \<and> historyOf (addAllToHistory s cid ts) cid = drop (length ts - 20) (map turnOf ts)
       \<and> (\<forall>k \<le> length ts.
            length (historyOf (addAllToHistory s cid (take k ts)) cid) \<le> MAX_HISTORY_LENGTH)
       \<and> MAX_HISTORY_LENGTH = 20"
  using assms
  by (auto simp: historyOf_addAllToHistory length_mostRecent MAX_HISTORY_LENGTH_def
      mostRecent_def)

theorem addToHistory_bounded_recent_witness:
  "historyOf Map.empty (JStr (ascii ''U1'')) = []
   \<and> length (historyOf (addAllToHistory Map.empty (JStr (ascii ''U1''))
        (map (\<lambda>n. (ascii ''user'', [of_nat n])) [0 ..< 23])) (JStr (ascii ''U1''))) = 20
   \<and> historyOf (addAllToHistory Map.empty (JStr (ascii ''U1''))
        (map (\<lambda>n. (ascii ''user'', [of_nat n])) [0 ..< 23])) (JStr (ascii ''U1''))
       = map (\<lambda>n. turnOf (ascii ''user'', [of_nat n])) [3 ..< 23]"
proof -
  let ?ts = "map (\<lambda>n. (ascii ''user'', [of_nat n :: jschar])) [0 ..< 23]"
  have empty: "historyOf Map.empty (JStr (ascii ''U1'')) = []"
    by (simp add: historyOf_simps)
  note run = addToHistory_bounded_recent [OF empty, of ?ts]
  from run have len:
    "length (historyOf (addAllToHistory Map.empty (JStr (ascii ''U1'')) ?ts) (JStr (ascii ''U1'')))
       = min (length ?ts) 20"
    by (rule conjunct1)
  from run have recent:
    "historyOf (addAllToHistory Map.empty (JStr (ascii ''U1'')) ?ts) (JStr (ascii ''U1''))
       = drop (length ?ts - 20) (map turnOf ?ts)"
    by (rule conjunct2 [THEN conjunct1])
  have "drop (length ?ts - 20) (map turnOf ?ts)
          = map (\<lambda>n. turnOf (ascii ''user'', [of_nat n])) [3 ..< 23]"
    by (simp add: drop_map comp_def)
  with recent have "historyOf (addAllToHistory Map.empty (JStr (ascii ''U1'')) ?ts)
                      (JStr (ascii ''U1''))
                    = map (\<lambda>n. turnOf (ascii ''user'', [of_nat n])) [3 ..< 23]"
    by (rule trans)
  moreover from len have
    "length (historyOf (addAllToHistory Map.empty (JStr (ascii ''U1'')) ?ts)
       (JStr (ascii ''U1''))) = 20"
    by simp
  ultimately show ?thesis using empty by blast
qed

text \<open>
  C6. \<open>clearHistory\<close> removes the entry of the id (and no other entry); a \<open>getHistory\<close>
  after it returns the empty history and leaves the map with a new, empty entry for the id.
\<close>

theorem clearHistory_then_getHistory:
  "clearHistory s cid cid = None
   \<and> dom (clearHistory s cid) = dom s - {cid}
   \<and> snd (getHistory (clearHistory s cid) cid) = []
   \<and> fst (getHistory (clearHistory s cid) cid) = (clearHistory s cid)(cid \<mapsto> [])"
  by (auto simp: clearHistory_def getHistory_def)

section \<open>Properties of the model gateway\<close>

text \<open>
  \<open>getChatResponse\<close> in one equation: the model call is recorded with the history as it
  was, the entry of the id holds what the client left in the array, and only a
  successful call is followed by the two appends.
\<close>

lemma getChatResponse_eq:
  "getChatResponse model w cid userMessage =
     (case model (historyOf (conversationHistory w) cid) userMessage of
        (Inl e, left) \<Rightarrow>
          (Inl e,
           w\<lparr>conversationHistory := (conversationHistory w)(cid \<mapsto> left),
             calls := calls w @ [ModelCall (historyOf (conversationHistory w) cid) userMessage]\<rparr>)
      | (Inr reply, left) \<Rightarrow>
          (Inr reply,
           w\<lparr>conversationHistory :=
               (conversationHistory w)(cid \<mapsto>
                  mostRecent MAX_HISTORY_LENGTH
                    (left @ [turnOf (ascii ''user'', userMessage), turnOf (ascii ''model'', reply)])),
             calls := calls w @ [ModelCall (historyOf (conversationHistory w) cid) userMessage]\<rparr>))"
  by (simp add: getChatResponse_def getHistory_eq addToHistory_twice Let_def historyOf_simps
      split: sum.splits prod.splits)

text \<open>
  With a client that leaves the array as it was handed, the stored turns are as the
  specification says: unchanged after a failure, and with the user turn and the model
  turn appended (through \<open>addToHistory\<close>, which keeps the \<open>MAX_HISTORY_LENGTH\<close> most
  recent turns) after a success.
\<close>

lemma getChatResponse_quiet_client:
  assumes "snd (model (historyOf (conversationHistory w) cid) userMessage)
             = historyOf (conversationHistory w) cid"
  shows "(fst (model (historyOf (conversationHistory w) cid) userMessage) = Inl e \<longrightarrow>
            fst (getChatResponse model w cid userMessage) = Inl e
            \<and> historyOf (conversationHistory (snd (getChatResponse model w cid userMessage))) cid
                = historyOf (conversationHistory w) cid)
       \<and> (fst (model (historyOf (conversationHistory w) cid) userMessage) = Inr reply \<longrightarrow>
            fst (getChatResponse model w cid userMessage) = Inr reply
            \<and> historyOf (conversationHistory (snd (getChatResponse model w cid userMessage))) cid
                = mostRecent MAX_HISTORY_LENGTH (historyOf (conversationHistory w) cid @
                    [turnOf (ascii ''user'', userMessage), turnOf (ascii ''model'', reply)]))"
  using assms
  by (auto simp: getChatResponse_eq historyOf_simps split: sum.splits prod.splits)

text \<open>
  C7. The claim: after a failed remote call the turns stored for the id are those stored
  before, and after a successful one exactly the user turn and the model turn have been
  appended. The code hands the stored array itself to the client and appends the two
  turns on its own after a success. With a client that keeps the exchange in the array
  it was handed, a first message \<open>hi\<close> answered by \<open>hello\<close> leaves four turns in the
  history (the two of the client, then the two of \<open>addToHistory\<close>), and a call that fails
  after the client has pushed its turns leaves those two turns in the history.
\<close>

theorem getChatResponse_client_writes_history:
  "fst (getChatResponse (recordingModel (ascii ''hello'')) startWorld
          (JStr (ascii ''U1'')) (ascii ''hi'')) = Inr (ascii ''hello'')
   \<and> historyOf (conversationHistory (snd (getChatResponse (recordingModel (ascii ''hello''))
          startWorld (JStr (ascii ''U1'')) (ascii ''hi'')))) (JStr (ascii ''U1''))
       = [turnOf (ascii ''user'', ascii ''hi''), turnOf (ascii ''model'', ascii ''hello''),
          turnOf (ascii ''user'', ascii ''hi''), turnOf (ascii ''model'', ascii ''hello'')]
   \<and> fst (getChatResponse blockedModel startWorld (JStr (ascii ''U1'')) (ascii ''hi''))
       = Inl (UpstreamError (ascii ''blocked''))
   \<and> historyOf (conversationHistory (snd (getChatResponse blockedModel startWorld
          (JStr (ascii ''U1'')) (ascii ''hi'')))) (JStr (ascii ''U1''))
       = [turnOf (ascii ''user'', ascii ''hi''), \<lparr>role = ascii ''model'', parts = []\<rparr>]
   \<and> historyOf (conversationHistory startWorld) (JStr (ascii ''U1'')) = []"
  by (simp add: getChatResponse_eq historyOf_simps startWorld_def recordingModel_def
      blockedModel_def mostRecent_def MAX_HISTORY_LENGTH_def)

section \<open>Properties of the event dispatcher\<close>

text \<open>
  \<open>handleEvent\<close> returns on every event: the only loop it runs is that of
  \<open>splitMessage\<close> with the bound 4500.
\<close>

lemma splitMessage_returns:
  assumes "0 \<le> maxLength"
  shows "\<exists>chunks. splitMessage msg maxLength = Some chunks"
  using splitLoop_returns[OF assms, of msg "[]"] by (auto simp: splitMessage_def)

lemma handleEvent_returns: "\<exists>outcome. handleEvent model lineClient w ev = Some outcome"
proof -
  have split: "splitMessage t 4500 \<noteq> None" for t
    using splitMessage_returns[of 4500 t] by auto
  show ?thesis
    by (simp add: handleEvent_def Let_def split
        split: option.split sum.split prod.split)
qed

lemma tokens_distinct:
  "HELP_JA \<noteq> RESET_JA" "HELP_JA \<noteq> ascii ''/reset''" "ascii ''/help'' \<noteq> RESET_JA"
  "ascii ''/help'' \<noteq> ascii ''/reset''"
  by (simp_all add: HELP_JA_def RESET_JA_def ascii_def)

text \<open>
  C8. For a text-message event whose text is a reset token, \<open>handleEvent\<close> removes the
  history entry of the conversation id and makes one outbound call, the reply with the
  confirmation message, and settles as that reply does. For a help token it makes one
  outbound call, the reply with the help message, and leaves the store as it was. In
  both cases no call to the model is made, whatever the gateway is.
\<close>

theorem handleEvent_commands:
  assumes "event.type ev = ascii ''message''" and "event.message ev = Some msg"
    and "message.type msg = ascii ''text''"
  shows "(message.text msg = RESET_JA \<or> message.text msg = ascii ''/reset'' \<longrightarrow>
            handleEvent model lineClient w ev =
              Some (promiseOf (lineClient \<lparr>replyRequest.replyToken = event.replyToken ev,
                                            messages = [textMessageOf RESET_REPLY]\<rparr>),
                    w\<lparr>conversationHistory := (conversationHistory w)(conversationIdOf ev := None),
                      calls := calls w @
                        [ReplyCall \<lparr>replyRequest.replyToken = event.replyToken ev,
                                    messages = [textMessageOf RESET_REPLY]\<rparr>]\<rparr>))
       \<and> (message.text msg = HELP_JA \<or> message.text msg = ascii ''/help'' \<longrightarrow>
            handleEvent model lineClient w ev =
              Some (promiseOf (lineClient \<lparr>replyRequest.replyToken = event.replyToken ev,
                                            messages = [textMessageOf HELP_REPLY]\<rparr>),
                    w\<lparr>calls := calls w @
                        [ReplyCall \<lparr>replyRequest.replyToken = event.replyToken ev,
                                    messages = [textMessageOf HELP_REPLY]\<rparr>]\<rparr>))"
  using assms tokens_distinct
  by (auto simp: handleEvent_def replyMessage_def clearHistory_def Let_def)

theorem handleEvent_commands_witness:
  "event.type (textEvent userSource (ascii ''/reset'')) = ascii ''message''
   \<and> handleEvent (quietModel (ascii ''hello'')) acceptingClient
        \<lparr>conversationHistory = [JStr (ascii ''U1'') \<mapsto> [turnOf (ascii ''user'', ascii ''hi'')]],
         calls = []\<rparr>
        (textEvent userSource (ascii ''/reset''))
      = Some (Inr (Some (Response (ascii ''ok''))),
              \<lparr>conversationHistory =
                 [JStr (ascii ''U1'') \<mapsto> [turnOf (ascii ''user'', ascii ''hi'')]]
                   (JStr (ascii ''U1'') := None),
               calls = [ReplyCall \<lparr>replyRequest.replyToken = JStr (ascii ''token''),
                                   messages = [textMessageOf RESET_REPLY]\<rparr>]\<rparr>)
   \<and> handleEvent (quietModel (ascii ''hello'')) acceptingClient
        \<lparr>conversationHistory = [JStr (ascii ''U1'') \<mapsto> [turnOf (ascii ''user'', ascii ''hi'')]],
         calls = []\<rparr>
        (textEvent userSource (ascii ''/help''))
      = Some (Inr (Some (Response (ascii ''ok''))),
              \<lparr>conversationHistory =
                 [JStr (ascii ''U1'') \<mapsto> [turnOf (ascii ''user'', ascii ''hi'')]],
               calls = [ReplyCall \<lparr>replyRequest.replyToken = JStr (ascii ''token''),
                                   messages = [textMessageOf HELP_REPLY]\<rparr>]\<rparr>)"
  using
    handleEvent_commands
      [of "textEvent userSource (ascii ''/reset'')"
          "\<lparr>message.type = ascii ''text'', message.text = ascii ''/reset''\<rparr>"
          "quietModel (ascii ''hello'')" acceptingClient
          "\<lparr>conversationHistory = [JStr (ascii ''U1'') \<mapsto> [turnOf (ascii ''user'', ascii ''hi'')]],
            calls = []\<rparr>"]
    handleEvent_commands
      [of "textEvent userSource (ascii ''/help'')"
          "\<lparr>message.type = ascii ''text'', message.text = ascii ''/help''\<rparr>"
          "quietModel (ascii ''hello'')" acceptingClient
          "\<lparr>conversationHistory = [JStr (ascii ''U1'') \<mapsto> [turnOf (ascii ''user'', ascii ''hi'')]],
            calls = []\<rparr>"]
  by (simp add: textEvent_def userSource_def conversationIdOf_def jsOr_def promiseOf_def
      acceptingClient_def)

text \<open>
  C9. The claim: when the model call fails, \<open>handleEvent\<close> replies with the apology and
  returns normally. The reply is sent, but \<open>handleEvent\<close> settles as the reply does: when
  the platform rejects the apology, \<open>handleEvent\<close> fails with the error of the reply.
\<close>

theorem handleEvent_apology_rejected:
  "fst (failingModel [] (ascii ''hi'')) = Inl (UpstreamError (ascii ''quota''))
   \<and> map_option fst
        (handleEvent failingModel rejectingClient startWorld (textEvent userSource (ascii ''hi'')))
       = Some (Inl (ReplyError (ascii ''invalid reply token'')))
   \<and> map_option (calls \<circ> snd)
        (handleEvent failingModel rejectingClient startWorld (textEvent userSource (ascii ''hi'')))
       = Some [ModelCall [] (ascii ''hi''),
               ReplyCall \<lparr>replyRequest.replyToken = JStr (ascii ''token''),
                          messages = [textMessageOf APOLOGY_REPLY]\<rparr>]"
  by (simp add: handleEvent_def replyMessage_def Let_def getChatResponse_eq textEvent_def
      userSource_def conversationIdOf_def jsOr_def historyOf_simps startWorld_def
      failingModel_def rejectingClient_def promiseOf_def ascii_def RESET_JA_def HELP_JA_def)

text \<open>
  C9, as amended. For a text-message event that is not a command, if the model call
  fails, \<open>handleEvent\<close> makes two outbound calls, the model call and one reply whose only
  message is the apology, and settles as that reply does, whatever the error of the model
  call was: it returns the response when the platform accepts the reply, and fails with
  the error of the reply when the platform rejects it.
\<close>

theorem handleEvent_model_failure:
  assumes "event.type ev = ascii ''message''" and "event.message ev = Some msg"
    and "message.type msg = ascii ''text''"
    and "message.text msg \<notin> {RESET_JA, ascii ''/reset'', HELP_JA, ascii ''/help''}"
    and "fst (model (historyOf (conversationHistory w) (conversationIdOf ev)) (message.text msg))
           = Inl e"
  shows "handleEvent model lineClient w ev =
           Some (promiseOf (lineClient \<lparr>replyRequest.replyToken = event.replyToken ev,
                                         messages = [textMessageOf APOLOGY_REPLY]\<rparr>),
                 w\<lparr>conversationHistory :=
                     (conversationHistory w)(conversationIdOf ev \<mapsto>
                        snd (model (historyOf (conversationHistory w) (conversationIdOf ev))
                               (message.text msg))),
                   calls := calls w @
                     [ModelCall (historyOf (conversationHistory w) (conversationIdOf ev))
                        (message.text msg),
                      ReplyCall \<lparr>replyRequest.replyToken = event.replyToken ev,
                                 messages = [textMessageOf APOLOGY_REPLY]\<rparr>]\<rparr>)
       \<and> (\<forall>r. lineClient \<lparr>replyRequest.replyToken = event.replyToken ev,
                            messages = [textMessageOf APOLOGY_REPLY]\<rparr> = Inr r \<longrightarrow>
              (\<exists>w'. handleEvent model lineClient w ev = Some (Inr (Some r), w')))
       \<and> (\<forall>e'. lineClient \<lparr>replyRequest.replyToken = event.replyToken ev,
                             messages = [textMessageOf APOLOGY_REPLY]\<rparr> = Inl e' \<longrightarrow>
              (\<exists>w'. handleEvent model lineClient w ev = Some (Inl e', w')))"
  using assms
  by (auto simp: handleEvent_def replyMessage_def Let_def getChatResponse_eq promiseOf_def
      split: prod.splits sum.splits)

theorem handleEvent_model_failure_witness:
  "ascii ''hi'' \<notin> {RESET_JA, ascii ''/reset'', HELP_JA, ascii ''/help''}
   \<and> fst (failingModel (historyOf (conversationHistory startWorld)
             (conversationIdOf (textEvent userSource (ascii ''hi'')))) (ascii ''hi''))
       = Inl (UpstreamError (ascii ''quota''))
   \<and> handleEvent failingModel acceptingClient startWorld (textEvent userSource (ascii ''hi''))
      = Some (Inr (Some (Response (ascii ''ok''))),
              \<lparr>conversationHistory = [JStr (ascii ''U1'') \<mapsto> []],
               calls = [ModelCall [] (ascii ''hi''),
                        ReplyCall \<lparr>replyRequest.replyToken = JStr (ascii ''token''),
                                   messages = [textMessageOf APOLOGY_REPLY]\<rparr>]\<rparr>)"
  using
    handleEvent_model_failure
      [of "textEvent userSource (ascii ''hi'')"
          "\<lparr>message.type = ascii ''text'', message.text = ascii ''hi''\<rparr>"
          failingModel startWorld "UpstreamError (ascii ''quota'')" acceptingClient]
  by (simp add: textEvent_def userSource_def conversationIdOf_def jsOr_def historyOf_simps
      ascii_def RESET_JA_def HELP_JA_def startWorld_def failingModel_def acceptingClient_def
      promiseOf_def)

text \<open>
  C10. The conversation id is the group id when that is truthy, else the room id when that
  is truthy, else the user id. The empty string and \<open>undefined\<close> are falsy, so a group id
  or room id that is the empty string is passed over for the next identifier. The id so
  chosen is the one \<open>handleEvent\<close> works on: a reset event whose group id is the empty
  string and whose room id is truthy removes the entry of the room id.
\<close>

theorem conversationId_truthiness_fallback:
  "conversationIdOf ev =
     (if truthy (groupId (event.source ev)) then groupId (event.source ev)
      else if truthy (roomId (event.source ev)) then roomId (event.source ev)
      else userId (event.source ev))
   \<and> \<not> truthy (JStr []) \<and> \<not> truthy JUndefined
   \<and> (\<not> truthy (groupId (event.source ev)) \<longrightarrow> truthy (roomId (event.source ev)) \<longrightarrow>
        conversationIdOf ev = roomId (event.source ev))
   \<and> (\<not> truthy (groupId (event.source ev)) \<longrightarrow> \<not> truthy (roomId (event.source ev)) \<longrightarrow>
        conversationIdOf ev = userId (event.source ev))
   \<and> (event.type ev = ascii ''message'' \<longrightarrow> event.message ev = Some msg \<longrightarrow>
      message.type msg = ascii ''text'' \<longrightarrow> message.text msg = ascii ''/reset'' \<longrightarrow>
      groupId (event.source ev) = JStr [] \<longrightarrow> truthy (roomId (event.source ev)) \<longrightarrow>
        (\<exists>out w'. handleEvent model lineClient w ev = Some (out, w')
           \<and> conversationHistory w' = (conversationHistory w)(roomId (event.source ev) := None)))"
  by (simp add: conversationIdOf_def jsOr_def handleEvent_def replyMessage_def
      clearHistory_def Let_def)

theorem conversationId_truthiness_fallback_witness:
  "\<not> truthy (groupId \<lparr>groupId = JStr [], roomId = JStr (ascii ''R1''), userId = JStr (ascii ''U1'')\<rparr>)
   \<and> truthy (roomId \<lparr>groupId = JStr [], roomId = JStr (ascii ''R1''), userId = JStr (ascii ''U1'')\<rparr>)
   \<and> conversationIdOf (textEvent
        \<lparr>groupId = JStr [], roomId = JStr (ascii ''R1''), userId = JStr (ascii ''U1'')\<rparr>
        (ascii ''/reset'')) = JStr (ascii ''R1'')
   \<and> \<not> truthy (roomId \<lparr>groupId = JStr [], roomId = JStr [], userId = JStr (ascii ''U1'')\<rparr>)
   \<and> conversationIdOf (textEvent
        \<lparr>groupId = JStr [], roomId = JStr [], userId = JStr (ascii ''U1'')\<rparr>
        (ascii ''hi'')) = JStr (ascii ''U1'')
   \<and> (\<exists>out w'. handleEvent (quietModel (ascii ''hello'')) acceptingClient
          \<lparr>conversationHistory = [JStr (ascii ''R1'') \<mapsto> [turnOf (ascii ''user'', ascii ''hi'')]],
           calls = []\<rparr>
          (textEvent \<lparr>groupId = JStr [], roomId = JStr (ascii ''R1''), userId = JStr (ascii ''U1'')\<rparr>
             (ascii ''/reset'')) = Some (out, w')
        \<and> conversationHistory w' (JStr (ascii ''R1'')) = None)"
  using
    conversationId_truthiness_fallback
      [of "textEvent \<lparr>groupId = JStr [], roomId = JStr (ascii ''R1''), userId = JStr (ascii ''U1'')\<rparr>
             (ascii ''/reset'')"
          "\<lparr>message.type = ascii ''text'', message.text = ascii ''/reset''\<rparr>"
          "quietModel (ascii ''hello'')" acceptingClient
          "\<lparr>conversationHistory = [JStr (ascii ''R1'') \<mapsto> [turnOf (ascii ''user'', ascii ''hi'')]],
            calls = []\<rparr>"]
    conversationId_truthiness_fallback
      [of "textEvent \<lparr>groupId = JStr [], roomId = JStr [], userId = JStr (ascii ''U1'')\<rparr>
             (ascii ''hi'')"]
  by (auto simp: textEvent_def ascii_def)

end
